theory Spec2Isabelle
  imports Main
begin

section \<open>The virtual pet of script.js\<close>

text \<open>
  The program keeps one module-wide object \<^verbatim>\<open>state\<close>. It is modelled as a record that
  every function takes and returns. The four vitals are JavaScript numbers that the
  program only ever changes by integer constants, so they are integers here; the two
  timestamps are milliseconds as returned by \<^verbatim>\<open>Date.now()\<close>. The DOM, the messages,
  the animations and the write to \<^verbatim>\<open>localStorage\<close> do not feed back into the state
  and are left out.
\<close>

subsection \<open>State (lines 39-49)\<close>

record petState =
  health :: int
  hunger :: int
  energy :: int
  clean :: int
  mood :: string
  createdAt :: int
  lastTickAt :: int
  isSleeping :: bool
  paused :: bool

text \<open>
  \<^verbatim>\<open>defaultState()\<close> reads the clock twice, once for each timestamp; the two readings
  are the parameters.
\<close>

definition defaultState :: "int \<Rightarrow> int \<Rightarrow> petState" where
  "defaultState tCreated tTick =
     \<lparr>health = 100, hunger = 0, energy = 80, clean = 80, mood = ''Happy'',
      createdAt = tCreated, lastTickAt = tTick, isSleeping = False, paused = False\<rparr>"

subsection \<open>Helpers (lines 91-93, 108-124)\<close>

definition clamp :: "int \<Rightarrow> int \<Rightarrow> int \<Rightarrow> int" where
  "clamp n lo hi = max lo (min hi n)"

definition computeMoodAndCondition :: "petState \<Rightarrow> string \<times> string" where
  "computeMoodAndCondition s =
     (if isSleeping s then (''Sleepy'', ''Sleeping...'')
      else if health s \<le> 25 then (''Sick'', ''Needs care!'')
      else if hunger s \<ge> 75 then (''Hungry'', ''Feed me!'')
      else if energy s \<le> 25 then (''Sleepy'', ''Very tired'')
      else if clean s \<le> 25 then (''Sick'', ''Dirty & cranky'')
      else if health s \<ge> 70 \<and> hunger s \<le> 40 \<and> energy s \<ge> 40 then (''Happy'', ''Great'')
      else (''Okay'', ''Doing fine''))"

text \<open>
  \<^verbatim>\<open>render()\<close> (lines 150-172) writes the computed mood back into the state; that is
  its only effect on the state.
\<close>

definition render :: "petState \<Rightarrow> petState" where
  "render s = s\<lparr>mood := fst (computeMoodAndCondition s)\<rparr>"

subsection \<open>Natural decay (lines 175-213)\<close>

definition applyNaturalDecay :: "petState \<Rightarrow> petState" where
  "applyNaturalDecay s =
     (if isSleeping s then
        s\<lparr>hunger := clamp (hunger s + 2) 0 100,
          energy := clamp (energy s + 6) 0 100,
          clean := clamp (clean s - 1) 0 100,
          health := clamp (health s + 1) 0 100\<rparr>
      else
        let next = s\<lparr>hunger := clamp (hunger s + 3) 0 100,
                      energy := clamp (energy s - 2) 0 100,
                      clean := clamp (clean s - 1) 0 100\<rparr>;
            next = (if hunger next \<ge> 80 then next\<lparr>health := clamp (health next - 3) 0 100\<rparr>
                    else if hunger next \<ge> 60 then next\<lparr>health := clamp (health next - 1) 0 100\<rparr>
                    else next);
            next = (if energy next \<le> 10 then next\<lparr>health := clamp (health next - 2) 0 100\<rparr>
                    else next);
            next = (if clean next \<le> 10 then next\<lparr>health := clamp (health next - 2) 0 100\<rparr>
                    else next)
        in next)"

subsection \<open>The scheduler's tick (lines 219-241)\<close>

text \<open>The body of the interval callback; \<open>now\<close> is the clock reading of line 223.\<close>

definition tick :: "int \<Rightarrow> petState \<Rightarrow> petState" where
  "tick now s =
     (if paused s then s
      else
        let s = applyNaturalDecay s;
            s = s\<lparr>lastTickAt := now\<rparr>;
            s = (if isSleeping s \<and> energy s \<ge> 98 then s\<lparr>isSleeping := False\<rparr> else s);
            s = (if health s \<le> 0 then s\<lparr>health := 0, paused := True, isSleeping := False\<rparr>
                 else s)
        in render s)"

subsection \<open>Actions (lines 245-322)\<close>

definition feed :: "petState \<Rightarrow> petState" where
  "feed s =
     (if health s \<le> 0 then s
      else
        let s = s\<lparr>hunger := clamp (hunger s - 25) 0 100\<rparr>;
            s = s\<lparr>clean := clamp (clean s - 5) 0 100\<rparr>;
            s = s\<lparr>energy := clamp (energy s + 5) 0 100\<rparr>
        in render s)"

definition play :: "petState \<Rightarrow> petState" where
  "play s =
     (if health s \<le> 0 then s
      else if energy s \<le> 10 then s
      else
        let s = s\<lparr>energy := clamp (energy s - 18) 0 100\<rparr>;
            s = s\<lparr>hunger := clamp (hunger s + 8) 0 100\<rparr>;
            s = s\<lparr>clean := clamp (clean s - 10) 0 100\<rparr>;
            s = s\<lparr>health := clamp (health s + 3) 0 100\<rparr>
        in render s)"

definition toggleSleep :: "petState \<Rightarrow> petState" where
  "toggleSleep s =
     (if health s \<le> 0 then s
      else render (s\<lparr>isSleeping := \<not> isSleeping s\<rparr>))"

definition heal :: "petState \<Rightarrow> petState" where
  "heal s =
     (if health s \<le> 0 then s
      else if energy s \<le> 8 then s
      else
        let s = s\<lparr>health := clamp (health s + 18) 0 100\<rparr>;
            s = s\<lparr>clean := clamp (clean s + 12) 0 100\<rparr>;
            s = s\<lparr>energy := clamp (energy s - 10) 0 100\<rparr>
        in render s)"

definition togglePause :: "petState \<Rightarrow> petState" where
  "togglePause s = render (s\<lparr>paused := \<not> paused s\<rparr>)"

text \<open>\<^verbatim>\<open>resetAll()\<close> ignores the old state; its parameters are the two clock readings.\<close>

definition resetAll :: "int \<Rightarrow> int \<Rightarrow> petState" where
  "resetAll tCreated tTick = render (defaultState tCreated tTick)"

subsection \<open>Loading a snapshot (lines 64-88)\<close>

text \<open>
  What \<^verbatim>\<open>JSON.parse\<close> returns is a primitive, \<^verbatim>\<open>null\<close> or an object. Of an object
  the program reads only the nine fields of the state, each of which the object may
  lack: a snapshot is a record of optional fields, \<open>None\<close> for a key that is absent.
  The fields that are present have the type the program stores. An array is an object
  with none of the nine keys. Keys other than the nine are copied by the spread and
  never read again; they are not modelled.
\<close>

record snapshot =
  snap_health :: "int option"
  snap_hunger :: "int option"
  snap_energy :: "int option"
  snap_clean :: "int option"
  snap_mood :: "string option"
  snap_createdAt :: "int option"
  snap_lastTickAt :: "int option"
  snap_isSleeping :: "bool option"
  snap_paused :: "bool option"

datatype jsonValue = JNull | JBool bool | JNumber int | JString string | JObject snapshot

text \<open>
  The object that \<^verbatim>\<open>saveState()\<close> (line 58) writes and \<^verbatim>\<open>JSON.parse\<close> reads back: every
  field of the state is present.
\<close>

definition snapshotOf :: "petState \<Rightarrow> snapshot" where
  "snapshotOf s =
     \<lparr>snap_health = Some (health s), snap_hunger = Some (hunger s),
      snap_energy = Some (energy s), snap_clean = Some (clean s),
      snap_mood = Some (mood s), snap_createdAt = Some (createdAt s),
      snap_lastTickAt = Some (lastTickAt s), snap_isSleeping = Some (isSleeping s),
      snap_paused = Some (paused s)\<rparr>"

text \<open>The spread \<^verbatim>\<open>{ ...d, ...parsed }\<close> of line 78: a key of the snapshot wins.\<close>

definition spread :: "petState \<Rightarrow> snapshot \<Rightarrow> petState" where
  "spread d p =
     \<lparr>health = (case snap_health p of None \<Rightarrow> health d | Some v \<Rightarrow> v),
      hunger = (case snap_hunger p of None \<Rightarrow> hunger d | Some v \<Rightarrow> v),
      energy = (case snap_energy p of None \<Rightarrow> energy d | Some v \<Rightarrow> v),
      clean = (case snap_clean p of None \<Rightarrow> clean d | Some v \<Rightarrow> v),
      mood = (case snap_mood p of None \<Rightarrow> mood d | Some v \<Rightarrow> v),
      createdAt = (case snap_createdAt p of None \<Rightarrow> createdAt d | Some v \<Rightarrow> v),
      lastTickAt = (case snap_lastTickAt p of None \<Rightarrow> lastTickAt d | Some v \<Rightarrow> v),
      isSleeping = (case snap_isSleeping p of None \<Rightarrow> isSleeping d | Some v \<Rightarrow> v),
      paused = (case snap_paused p of None \<Rightarrow> paused d | Some v \<Rightarrow> v)\<rparr>"

text \<open>The \<^verbatim>\<open>for\<close> loop of lines 79-81, started at \<open>i\<close>.\<close>

function decayLoop :: "int \<Rightarrow> int \<Rightarrow> petState \<Rightarrow> petState" where
  "decayLoop i minutes fixed =
     (if i < minutes then decayLoop (i + 1) minutes (applyNaturalDecay fixed) else fixed)"
  by pat_completeness auto
termination
  by (relation "measure (\<lambda>(i, minutes, fixed). nat (minutes - i))") auto

declare decayLoop.simps [simp del]

text \<open>
  Lines 75-83, the catch-up replay of a decoded object. \<open>now\<close> is the clock reading
  of line 75, \<open>tCreated\<close> and \<open>tTick\<close> those of the call of \<^verbatim>\<open>defaultState()\<close> in line 78.
  \<^verbatim>\<open>Math.floor\<close> of the quotient is \<open>div\<close> on integers, which rounds down.
\<close>

definition replay :: "snapshot \<Rightarrow> int \<Rightarrow> int \<Rightarrow> int \<Rightarrow> petState" where
  "replay parsed now tCreated tTick =
     (let last = (case snap_lastTickAt parsed of None \<Rightarrow> now | Some l \<Rightarrow> l);
          minutes = min 60 ((now - last) div 60000);
          fixed = spread (defaultState tCreated tTick) parsed;
          fixed = decayLoop 0 minutes fixed
      in fixed\<lparr>lastTickAt := now\<rparr>)"

text \<open>
  \<^verbatim>\<open>loadState()\<close>. The stored item is \<open>None\<close> when the key is absent. \<open>jsonParse\<close>
  stands for \<^verbatim>\<open>JSON.parse\<close>, with \<open>None\<close> when it throws; the \<^verbatim>\<open>catch\<close> turns that
  into \<^verbatim>\<open>null\<close>, which is \<open>None\<close> here.
\<close>

definition loadState ::
  "(string \<Rightarrow> jsonValue option) \<Rightarrow> string option \<Rightarrow> int \<Rightarrow> int \<Rightarrow> int \<Rightarrow> petState option" where
  "loadState jsonParse item now tCreated tTick =
     (case item of
        None \<Rightarrow> None
      | Some raw \<Rightarrow>
          if raw = [] then None
          else
            (case jsonParse raw of
               None \<Rightarrow> None
             | Some (JObject parsed) \<Rightarrow> Some (replay parsed now tCreated tTick)
             | Some _ \<Rightarrow> None))"

text \<open>
  Line 51, \<^verbatim>\<open>loadState() ?? defaultState()\<close>: \<open>tCreated'\<close> and \<open>tTick'\<close> are the clock readings
  of the fallback.
\<close>

definition initialState ::
  "(string \<Rightarrow> jsonValue option) \<Rightarrow> string option \<Rightarrow> int \<Rightarrow> int \<Rightarrow> int \<Rightarrow> int \<Rightarrow> int \<Rightarrow> petState" where
  "initialState jsonParse item now tCreated tTick tCreated' tTick' =
     (case loadState jsonParse item now tCreated tTick of
        None \<Rightarrow> defaultState tCreated' tTick'
      | Some s \<Rightarrow> s)"

subsection \<open>Sequences of events\<close>

text \<open>
  The event loop runs one callback at a time: a timer tick, which reads the clock, or
  the click handler of one of the five buttons other than reset.
\<close>

datatype event = Tick int | Feed | Play | ToggleSleep | Heal | TogglePause

fun step :: "event \<Rightarrow> petState \<Rightarrow> petState" where
  "step (Tick now) s = tick now s"
| "step Feed s = feed s"
| "step Play s = play s"
| "step ToggleSleep s = toggleSleep s"
| "step Heal s = heal s"
| "step TogglePause s = togglePause s"

fun run :: "event list \<Rightarrow> petState \<Rightarrow> petState" where
  "run [] s = s"
| "run (e # es) s = run es (step e s)"

subsection \<open>The specification's wording\<close>

text \<open>
  Clamping to the range 0 to 100 as the specification means it, written without the
  program's \<^verbatim>\<open>clamp\<close>: below 0 gives 0, above 100 gives 100.
\<close>

definition clampToRange :: "int \<Rightarrow> int" where
  "clampToRange n = (if n < 0 then 0 else if 100 < n then 100 else n)"

text \<open>
  The decay step as the specification words it: the deltas are applied, the health
  penalties are added up from the values after the deltas, and every vital is clamped
  once at the end.
\<close>

definition advance_spec :: "petState \<Rightarrow> petState" where
  "advance_spec s =
     (if isSleeping s then
        s\<lparr>health := clampToRange (health s + 1),
          hunger := clampToRange (hunger s + 2),
          energy := clampToRange (energy s + 6),
          clean := clampToRange (clean s - 1)\<rparr>
      else
        let h = hunger s + 3;
            e = energy s - 2;
            c = clean s - 1;
            penalty = (if h \<ge> 80 then 3 else if h \<ge> 60 then 1 else 0)
                    + (if e \<le> 10 then 2 else 0)
                    + (if c \<le> 10 then 2 else 0)
        in s\<lparr>health := clampToRange (health s - penalty),
             hunger := clampToRange h,
             energy := clampToRange e,
             clean := clampToRange c\<rparr>)"

text \<open>
  The classifier as the specification words it: a list of rules in priority order, of
  which the first whose condition holds gives the result, and a default.
\<close>

definition classify_rules :: "((petState \<Rightarrow> bool) \<times> string \<times> string) list" where
  "classify_rules =
     [(\<lambda>s. isSleeping s, ''Sleepy'', ''Sleeping...''),
      (\<lambda>s. health s \<le> 25, ''Sick'', ''Needs care!''),
      (\<lambda>s. hunger s \<ge> 75, ''Hungry'', ''Feed me!''),
      (\<lambda>s. energy s \<le> 25, ''Sleepy'', ''Very tired''),
      (\<lambda>s. clean s \<le> 25, ''Sick'', ''Dirty & cranky''),
      (\<lambda>s. health s \<ge> 70 \<and> hunger s \<le> 40 \<and> energy s \<ge> 40, ''Happy'', ''Great'')]"

fun first_match :: "((petState \<Rightarrow> bool) \<times> string \<times> string) list \<Rightarrow> petState \<Rightarrow> string \<times> string" where
  "first_match [] s = (''Okay'', ''Doing fine'')"
| "first_match ((cond, result) # rules) s = (if cond s then result else first_match rules s)"

definition classify_spec :: "petState \<Rightarrow> string \<times> string" where
  "classify_spec s = first_match classify_rules s"

text \<open>
  The three ways in which the specification says that there is no usable snapshot:
  nothing is stored (the program takes the empty string for nothing, line 67), the
  stored text does not decode, or it decodes to something that is not a non-null
  object.
\<close>

fun isObject :: "jsonValue \<Rightarrow> bool" where
  "isObject (JObject p) = True"
| "isObject v = False"

definition noUsableSnapshot :: "(string \<Rightarrow> jsonValue option) \<Rightarrow> string option \<Rightarrow> bool" where
  "noUsableSnapshot jsonParse item =
     (case item of
        None \<Rightarrow> True
      | Some raw \<Rightarrow>
          raw = [] \<or> (case jsonParse raw of None \<Rightarrow> True | Some v \<Rightarrow> \<not> isObject v))"

text \<open>The range invariant of the four vitals, on a state and on the keys of a snapshot.\<close>

definition inRange :: "int \<Rightarrow> bool" where
  "inRange n = (0 \<le> n \<and> n \<le> 100)"

definition vitalsInRange :: "petState \<Rightarrow> bool" where
  "vitalsInRange s = (inRange (health s) \<and> inRange (hunger s) \<and> inRange (energy s) \<and> inRange (clean s))"

definition snapshotInRange :: "snapshot \<Rightarrow> bool" where
  "snapshotInRange p =
     ((case snap_health p of None \<Rightarrow> True | Some v \<Rightarrow> inRange v) \<and>
      (case snap_hunger p of None \<Rightarrow> True | Some v \<Rightarrow> inRange v) \<and>
      (case snap_energy p of None \<Rightarrow> True | Some v \<Rightarrow> inRange v) \<and>
      (case snap_clean p of None \<Rightarrow> True | Some v \<Rightarrow> inRange v))"

section \<open>Helper lemmas\<close>

subsection \<open>Clamping\<close>

lemma clamp_id: "0 \<le> n \<Longrightarrow> n \<le> 100 \<Longrightarrow> clamp n 0 100 = n"
  by (simp add: clamp_def)

lemma clamp_nonpos: "n \<le> 0 \<Longrightarrow> clamp n 0 100 = 0"
  by (simp add: clamp_def)

lemma inRange_clamp: "inRange (clamp n 0 100)"
  by (simp add: inRange_def clamp_def)

text \<open>Two subtractions, each clamped, are one clamped subtraction when the start is at most 100.\<close>

lemma clamp_sub_sub:
  "n \<le> 100 \<Longrightarrow> 0 \<le> a \<Longrightarrow> 0 \<le> b \<Longrightarrow>
     clamp (clamp (n - a) 0 100 - b) 0 100 = clamp (n - (a + b)) 0 100"
  by (simp add: clamp_def max_def min_def)

text \<open>A threshold inside the range reads the same before and after the clamp.\<close>

lemma clamp_ge_iff: "0 < k \<Longrightarrow> k \<le> 100 \<Longrightarrow> (k \<le> clamp n 0 100) = (k \<le> n)"
  by (auto simp add: clamp_def max_def min_def)

lemma clamp_le_iff: "0 \<le> k \<Longrightarrow> k < 100 \<Longrightarrow> (clamp n 0 100 \<le> k) = (n \<le> k)"
  by (auto simp add: clamp_def max_def min_def)

subsection \<open>The decay step\<close>

text \<open>The program's \<^verbatim>\<open>clamp(n, 0, 100)\<close> is the clamping of the specification.\<close>

lemma clamp_clampToRange: "clamp n 0 100 = clampToRange n"
  by (simp add: clamp_def clampToRange_def)

lemma applyNaturalDecay_eq_spec_asleep:
  "isSleeping s \<Longrightarrow> applyNaturalDecay s = advance_spec s"
  by (simp add: applyNaturalDecay_def advance_spec_def clamp_clampToRange)

lemma applyNaturalDecay_eq_spec_awake:
  "0 \<le> health s \<Longrightarrow> health s \<le> 100 \<Longrightarrow> applyNaturalDecay s = advance_spec s"
  by (simp add: applyNaturalDecay_def advance_spec_def Let_def clamp_id clamp_sub_sub
      clamp_ge_iff clamp_le_iff flip: clamp_clampToRange)

text \<open>Hunger, energy and clean, and the fields that are not vitals, agree on every state.\<close>

lemma applyNaturalDecay_eq_spec_but_health:
  "(applyNaturalDecay s)\<lparr>health := x\<rparr> = (advance_spec s)\<lparr>health := x\<rparr>"
  by (simp add: applyNaturalDecay_def advance_spec_def Let_def clamp_ge_iff clamp_le_iff
      flip: clamp_clampToRange)

lemma applyNaturalDecay_frame:
  "isSleeping (applyNaturalDecay s) = isSleeping s"
  "paused (applyNaturalDecay s) = paused s"
  "createdAt (applyNaturalDecay s) = createdAt s"
  "lastTickAt (applyNaturalDecay s) = lastTickAt s"
  "mood (applyNaturalDecay s) = mood s"
  by (simp_all add: applyNaturalDecay_def Let_def)

text \<open>An awake pet with health 0 keeps it: every penalty is clamped back to 0.\<close>

lemma applyNaturalDecay_dead:
  assumes "health s = 0" and "\<not> isSleeping s"
  shows "health (applyNaturalDecay s) = 0"
  using assms by (simp add: applyNaturalDecay_def Let_def clamp_nonpos)

lemma funpow_createdAt: "createdAt ((applyNaturalDecay ^^ n) s) = createdAt s"
  by (induction n) (simp_all add: applyNaturalDecay_frame)

lemma applyNaturalDecay_createdAt_update:
  "applyNaturalDecay (s\<lparr>createdAt := x\<rparr>) = (applyNaturalDecay s)\<lparr>createdAt := x\<rparr>"
  by (simp add: applyNaturalDecay_def Let_def)

lemma funpow_createdAt_update:
  "(applyNaturalDecay ^^ n) (s\<lparr>createdAt := x\<rparr>) = ((applyNaturalDecay ^^ n) s)\<lparr>createdAt := x\<rparr>"
  by (induction n) (simp_all add: applyNaturalDecay_createdAt_update)

subsection \<open>The replay loop\<close>

text \<open>The loop applies the decay step \<open>minutes - i\<close> times, and not at all when that is negative.\<close>

lemma decayLoop_funpow:
  "decayLoop i minutes fixed = (applyNaturalDecay ^^ nat (minutes - i)) fixed"
proof (induction i minutes fixed rule: decayLoop.induct)
  case (1 i minutes fixed)
  show ?case
  proof (cases "i < minutes")
    case True
    then have n: "nat (minutes - i) = Suc (nat (minutes - (i + 1)))" by simp
    have "decayLoop i minutes fixed = decayLoop (i + 1) minutes (applyNaturalDecay fixed)"
      using True by (subst decayLoop.simps) simp
    also have "\<dots> = (applyNaturalDecay ^^ nat (minutes - (i + 1))) (applyNaturalDecay fixed)"
      using "1" True by simp
    also have "\<dots> = (applyNaturalDecay ^^ nat (minutes - i)) fixed"
      using n by (simp add: funpow_swap1)
    finally show ?thesis .
  next
    case False
    then show ?thesis by (subst decayLoop.simps) simp
  qed
qed

lemma replay_capped:
  assumes "snap_lastTickAt p = Some l" and "now - l \<ge> 3600000"
  shows "replay p now tCreated tTick =
           ((applyNaturalDecay ^^ 60) (spread (defaultState tCreated tTick) p))\<lparr>lastTickAt := now\<rparr>"
proof -
  have "(now - l) div 60000 \<ge> 60" using assms(2) by simp
  then have "min 60 ((now - l) div 60000) = 60" by simp
  then show ?thesis using assms(1) by (simp add: replay_def Let_def decayLoop_funpow)
qed

lemma applyNaturalDecay_lastTickAt_update:
  "applyNaturalDecay (s\<lparr>lastTickAt := x\<rparr>) = (applyNaturalDecay s)\<lparr>lastTickAt := x\<rparr>"
  by (simp add: applyNaturalDecay_def Let_def)

lemma funpow_lastTickAt_update:
  "(applyNaturalDecay ^^ n) (s\<lparr>lastTickAt := x\<rparr>) = ((applyNaturalDecay ^^ n) s)\<lparr>lastTickAt := x\<rparr>"
  by (induction n) (simp_all add: applyNaturalDecay_lastTickAt_update)

lemma spread_defaults_createdAt:
  "snap_lastTickAt p = Some l \<Longrightarrow>
   spread (defaultState tCreated tTick) p =
     (spread (defaultState tCreated' tTick') p)
       \<lparr>createdAt := (case snap_createdAt p of None \<Rightarrow> tCreated | Some v \<Rightarrow> v)\<rparr>"
  by (simp add: spread_def defaultState_def split: option.splits)

text \<open>
  An array passes the check of line 71, being an object. It has none of the nine keys,
  so what comes back has the default values, stamped with \<open>now\<close>.
\<close>

lemma loadState_no_keys:
  "raw \<noteq> [] \<Longrightarrow>
   jsonParse raw = Some (JObject \<lparr>snap_health = None, snap_hunger = None, snap_energy = None,
     snap_clean = None, snap_mood = None, snap_createdAt = None, snap_lastTickAt = None,
     snap_isSleeping = None, snap_paused = None\<rparr>) \<Longrightarrow>
   loadState jsonParse (Some raw) now tCreated tTick = Some ((defaultState tCreated tTick)\<lparr>lastTickAt := now\<rparr>)"
  by (simp add: loadState_def replay_def Let_def decayLoop_funpow spread_def defaultState_def)

subsection \<open>The range of the vitals\<close>

lemma vitalsInRange_render: "vitalsInRange (render s) = vitalsInRange s"
  by (simp add: vitalsInRange_def render_def)

lemma vitalsInRange_applyNaturalDecay: "vitalsInRange s \<Longrightarrow> vitalsInRange (applyNaturalDecay s)"
  by (simp add: vitalsInRange_def applyNaturalDecay_def Let_def inRange_clamp)

lemma vitalsInRange_funpow: "vitalsInRange s \<Longrightarrow> vitalsInRange ((applyNaturalDecay ^^ n) s)"
  by (induction n) (simp_all add: vitalsInRange_applyNaturalDecay)

lemma vitalsInRange_tick: "vitalsInRange s \<Longrightarrow> vitalsInRange (tick now s)"
proof -
  assume "vitalsInRange s"
  then have "vitalsInRange (applyNaturalDecay s)"
    by (rule vitalsInRange_applyNaturalDecay)
  then show ?thesis
    using \<open>vitalsInRange s\<close>
    by (simp add: tick_def Let_def vitalsInRange_render) (simp add: vitalsInRange_def inRange_def)
qed

lemma vitalsInRange_feed: "vitalsInRange s \<Longrightarrow> vitalsInRange (feed s)"
  by (simp add: feed_def Let_def vitalsInRange_render) (simp add: vitalsInRange_def inRange_clamp)

lemma vitalsInRange_play: "vitalsInRange s \<Longrightarrow> vitalsInRange (play s)"
  by (simp add: play_def Let_def vitalsInRange_render) (simp add: vitalsInRange_def inRange_clamp)

lemma vitalsInRange_heal: "vitalsInRange s \<Longrightarrow> vitalsInRange (heal s)"
  by (simp add: heal_def Let_def vitalsInRange_render) (simp add: vitalsInRange_def inRange_clamp)

lemma vitalsInRange_toggleSleep: "vitalsInRange s \<Longrightarrow> vitalsInRange (toggleSleep s)"
  by (simp add: toggleSleep_def vitalsInRange_render) (simp add: vitalsInRange_def)

lemma vitalsInRange_togglePause: "vitalsInRange s \<Longrightarrow> vitalsInRange (togglePause s)"
  by (simp add: togglePause_def vitalsInRange_render) (simp add: vitalsInRange_def)

lemma vitalsInRange_resetAll: "vitalsInRange (resetAll tCreated tTick)"
  by (simp add: resetAll_def vitalsInRange_render)
    (simp add: vitalsInRange_def inRange_def defaultState_def)

lemma vitalsInRange_spread:
  "snapshotInRange p \<Longrightarrow> vitalsInRange (spread (defaultState tCreated tTick) p)"
  by (simp add: snapshotInRange_def vitalsInRange_def spread_def defaultState_def inRange_def
      split: option.splits)

lemma vitalsInRange_replay: "snapshotInRange p \<Longrightarrow> vitalsInRange (replay p now tCreated tTick)"
proof -
  assume "snapshotInRange p"
  then have "vitalsInRange ((applyNaturalDecay ^^ n) (spread (defaultState tCreated tTick) p))" for n
    by (intro vitalsInRange_funpow vitalsInRange_spread)
  then show ?thesis
    by (simp add: replay_def Let_def decayLoop_funpow vitalsInRange_def)
qed

subsection \<open>The state with health 0 and awake\<close>

lemma render_fields:
  "health (render s) = health s" "isSleeping (render s) = isSleeping s"
  "paused (render s) = paused s"
  by (simp_all add: render_def)

lemma tick_terminal:
  "\<not> paused s \<Longrightarrow> health (tick now s) \<le> 0 \<Longrightarrow>
     health (tick now s) = 0 \<and> paused (tick now s) \<and> \<not> isSleeping (tick now s)"
  by (simp add: tick_def Let_def render_fields split: if_splits)

text \<open>
  No event leaves the set of states with health 0 and awake: the four guarded actions
  return at once, the pause button touches neither field, and a tick that runs decays
  an awake pet, whose health only falls.
\<close>

lemma step_dead:
  assumes "health s = 0" and "\<not> isSleeping s"
  shows "health (step e s) = 0 \<and> \<not> isSleeping (step e s)"
proof (cases e)
  case (Tick now)
  have "health (applyNaturalDecay s) = 0"
    using assms by (rule applyNaturalDecay_dead)
  with assms Tick show ?thesis
    by (simp add: tick_def Let_def render_fields applyNaturalDecay_frame)
next
  case TogglePause
  with assms show ?thesis by (simp add: togglePause_def render_fields)
qed (use assms in \<open>simp_all add: feed_def play_def toggleSleep_def heal_def\<close>)

lemma run_dead:
  "health s = 0 \<Longrightarrow> \<not> isSleeping s \<Longrightarrow> health (run es s) = 0 \<and> \<not> isSleeping (run es s)"
proof (induction es arbitrary: s)
  case Nil
  then show ?case by simp
next
  case (Cons e es)
  from step_dead [OF Cons.prems] have "health (step e s) = 0" "\<not> isSleeping (step e s)"
    by simp_all
  then show ?case using Cons.IH by simp
qed

section \<open>The claims\<close>

subsection \<open>The decay engine\<close>

text \<open>
  C1, as amended. \<^verbatim>\<open>applyNaturalDecay\<close> is the decay step of the specification on
  every state that is asleep or whose health is in the range 0 to 100, and on every
  other state in all fields but health. Asleep: hunger + 2, energy + 6, clean - 1,
  health + 1, and no penalty. Awake: hunger + 3, energy - 2, clean - 1, then the health
  penalties, read from the values after the deltas and added up: 3 when hunger is at
  least 80, else 1 when it is at least 60; 2 more when energy is at most 10; 2 more when
  clean is at most 10. Every vital is clamped to the range 0 to 100. The code clamps
  after each penalty and the specification once at the end; from a health in the range
  the two agree.
\<close>

theorem applyNaturalDecay_spec:
  "(applyNaturalDecay s)\<lparr>health := x\<rparr> = (advance_spec s)\<lparr>health := x\<rparr> \<and>
   (isSleeping s \<or> (0 \<le> health s \<and> health s \<le> 100) \<longrightarrow> applyNaturalDecay s = advance_spec s)"
  using applyNaturalDecay_eq_spec_asleep [of s] applyNaturalDecay_eq_spec_awake [of s]
    applyNaturalDecay_eq_spec_but_health [where s = s and x = x]
  by blast

text \<open>
  Awake, all three penalties stack on a pet with health 4: 4 - 7 is clamped to 0.
  Asleep, hunger 99 + 2, energy 97 + 6 and health 100 + 1 are clamped to 100, and clean
  0 - 1 to 0.
\<close>

theorem applyNaturalDecay_spec_witness:
  "(0::int) \<le> 4 \<and> (4::int) \<le> 100 \<and>
   applyNaturalDecay
     \<lparr>health = 4, hunger = 90, energy = 5, clean = 5, mood = ''Hungry'', createdAt = 0,
      lastTickAt = 0, isSleeping = False, paused = False\<rparr> =
     \<lparr>health = 0, hunger = 93, energy = 3, clean = 4, mood = ''Hungry'', createdAt = 0,
      lastTickAt = 0, isSleeping = False, paused = False\<rparr> \<and>
   isSleeping
     \<lparr>health = 100, hunger = 99, energy = 97, clean = 0, mood = ''Sleepy'', createdAt = 0,
      lastTickAt = 0, isSleeping = True, paused = False\<rparr> \<and>
   applyNaturalDecay
     \<lparr>health = 100, hunger = 99, energy = 97, clean = 0, mood = ''Sleepy'', createdAt = 0,
      lastTickAt = 0, isSleeping = True, paused = False\<rparr> =
     \<lparr>health = 100, hunger = 100, energy = 100, clean = 0, mood = ''Sleepy'', createdAt = 0,
      lastTickAt = 0, isSleeping = True, paused = False\<rparr>"
  using applyNaturalDecay_spec
    [where x = 0 and s = "\<lparr>health = 4, hunger = 90, energy = 5, clean = 5, mood = ''Hungry'', createdAt = 0,
      lastTickAt = 0, isSleeping = False, paused = False\<rparr>"]
    applyNaturalDecay_spec
    [where x = 0 and s = "\<lparr>health = 100, hunger = 99, energy = 97, clean = 0, mood = ''Sleepy'', createdAt = 0,
      lastTickAt = 0, isSleeping = True, paused = False\<rparr>"]
  by (simp add: advance_spec_def clampToRange_def)

text \<open>
  C1 as it is written fails on an awake state whose health is outside the range: no
  penalty applies to a well-fed, rested, clean pet, the awake branch then never writes
  \<open>health\<close>, and a health of 150 stays 150 where the specification clamps it to 100.
\<close>

theorem applyNaturalDecay_spec_counterexample:
  "applyNaturalDecay
     \<lparr>health = 150, hunger = 0, energy = 80, clean = 80, mood = ''Happy'', createdAt = 0,
      lastTickAt = 0, isSleeping = False, paused = False\<rparr> \<noteq>
   advance_spec
     \<lparr>health = 150, hunger = 0, energy = 80, clean = 80, mood = ''Happy'', createdAt = 0,
      lastTickAt = 0, isSleeping = False, paused = False\<rparr> \<and>
   health (applyNaturalDecay
     \<lparr>health = 150, hunger = 0, energy = 80, clean = 80, mood = ''Happy'', createdAt = 0,
      lastTickAt = 0, isSleeping = False, paused = False\<rparr>) = 150 \<and>
   health (advance_spec
     \<lparr>health = 150, hunger = 0, energy = 80, clean = 80, mood = ''Happy'', createdAt = 0,
      lastTickAt = 0, isSleeping = False, paused = False\<rparr>) = 100"
  by (simp add: applyNaturalDecay_def advance_spec_def clamp_def clampToRange_def)

text \<open>
  C10. The decay step changes the four vitals only: \<open>isSleeping\<close>, \<open>paused\<close>,
  \<open>createdAt\<close>, \<open>lastTickAt\<close> and \<open>mood\<close> come back as they went in. The timestamp
  and the wake, pause and terminal transitions are the work of \<open>tick\<close> and \<open>replay\<close>.
\<close>

theorem applyNaturalDecay_touches_only_vitals:
  "isSleeping (applyNaturalDecay s) = isSleeping s \<and> paused (applyNaturalDecay s) = paused s \<and>
   createdAt (applyNaturalDecay s) = createdAt s \<and> lastTickAt (applyNaturalDecay s) = lastTickAt s \<and>
   mood (applyNaturalDecay s) = mood s"
  by (simp add: applyNaturalDecay_frame)

text \<open>
  C9. From the awake state with hunger 0, energy 80, clean 80 and health 100, the table
  gives hunger and health after 0, 1, ..., 27 decay steps. Hunger is 81 after the 27th
  step and below 80 after every earlier one, so the branch for hunger of at least 80
  runs for the first time in the 27th step, where health falls by 3, from 93 to 90;
  the seven steps before it take the branch for hunger of at least 60 and cost 1 each.
\<close>

theorem hunger_crosses_80_on_27th_advance:
  "map (\<lambda>k. let s = (applyNaturalDecay ^^ k)
                   \<lparr>health = 100, hunger = 0, energy = 80, clean = 80, mood = m,
                    createdAt = tCreated, lastTickAt = tTick, isSleeping = False, paused = p\<rparr>
              in (hunger s, health s)) [0..<28] =
     [(0, 100), (3, 100), (6, 100), (9, 100), (12, 100), (15, 100), (18, 100),
      (21, 100), (24, 100), (27, 100), (30, 100), (33, 100), (36, 100),
      (39, 100), (42, 100), (45, 100), (48, 100), (51, 100), (54, 100),
      (57, 100), (60, 99), (63, 98), (66, 97), (69, 96), (72, 95), (75, 94),
      (78, 93), (81, 90)]"
  by (simp add: upt_rec eval_nat_numeral funpow_simps_right(2) applyNaturalDecay_def clamp_def
      Let_def del: funpow.simps)

subsection \<open>The range invariant\<close>

text \<open>
  C2. From a state whose four vitals are in the range 0 to 100, every operation gives a
  state whose four vitals are in that range: the decay step, feed, play, heal, the sleep
  and pause toggles, reset, and the replay of a snapshot whose vitals are in the range
  (of any such snapshot, and of the snapshot of the state itself); the scheduler's tick
  as well. No operation refuses a value: what leaves the range is clamped.
\<close>

theorem vitals_stay_in_range:
  assumes "vitalsInRange s" and "snapshotInRange p"
  shows "vitalsInRange (applyNaturalDecay s) \<and> vitalsInRange (feed s) \<and> vitalsInRange (play s) \<and>
         vitalsInRange (heal s) \<and> vitalsInRange (toggleSleep s) \<and> vitalsInRange (togglePause s) \<and>
         vitalsInRange (resetAll tCreated tTick) \<and> vitalsInRange (replay p now tCreated' tTick') \<and>
         vitalsInRange (replay (snapshotOf s) now tCreated' tTick') \<and> vitalsInRange (tick now s)"
proof -
  have "snapshotInRange (snapshotOf s)"
    using assms(1) by (simp add: snapshotInRange_def snapshotOf_def vitalsInRange_def)
  then show ?thesis
    using assms
    by (simp add: vitalsInRange_applyNaturalDecay vitalsInRange_feed vitalsInRange_play
        vitalsInRange_heal vitalsInRange_toggleSleep vitalsInRange_togglePause
        vitalsInRange_resetAll vitalsInRange_replay vitalsInRange_tick)
qed

theorem vitals_stay_in_range_witness:
  "vitalsInRange (defaultState 0 0) \<and>
   snapshotInRange \<lparr>snap_health = Some 3, snap_hunger = Some 99, snap_energy = None,
     snap_clean = Some 0, snap_mood = None, snap_createdAt = None, snap_lastTickAt = Some 0,
     snap_isSleeping = None, snap_paused = None\<rparr> \<and>
   vitalsInRange (play (defaultState 0 0)) \<and>
   vitalsInRange (replay \<lparr>snap_health = Some 3, snap_hunger = Some 99, snap_energy = None,
     snap_clean = Some 0, snap_mood = None, snap_createdAt = None, snap_lastTickAt = Some 0,
     snap_isSleeping = None, snap_paused = None\<rparr> 600000 600000 600000)"
proof -
  have a: "vitalsInRange (defaultState 0 0)"
    by (simp add: vitalsInRange_def inRange_def defaultState_def)
  have b: "snapshotInRange \<lparr>snap_health = Some 3, snap_hunger = Some 99, snap_energy = None,
     snap_clean = Some 0, snap_mood = None, snap_createdAt = None, snap_lastTickAt = Some 0,
     snap_isSleeping = None, snap_paused = None\<rparr>"
    by (simp add: snapshotInRange_def inRange_def)
  from vitals_stay_in_range [OF a b, of 0 0 600000 600000 600000] a b show ?thesis
    by simp
qed

subsection \<open>The classifier\<close>

text \<open>
  C3. \<^verbatim>\<open>computeMoodAndCondition\<close> is a function of the state that gives the result of the
  first rule, in the order of the specification, whose condition holds: asleep; health
  at most 25; hunger at least 75; energy at most 25; clean at most 25; health at least
  70 with hunger at most 40 and energy at least 40; and "Okay", "Doing fine" when none
  does. An awake pet with health 20 and hunger 90 is "Sick", "Needs care!".
\<close>

theorem classify_priority:
  "computeMoodAndCondition s = classify_spec s \<and>
   computeMoodAndCondition
     \<lparr>health = 20, hunger = 90, energy = e, clean = c, mood = m, createdAt = tCreated,
      lastTickAt = tTick, isSleeping = False, paused = p\<rparr> = (''Sick'', ''Needs care!'')"
  by (simp add: computeMoodAndCondition_def classify_spec_def classify_rules_def)

subsection \<open>Guards and the terminal condition\<close>

text \<open>
  C8. An action whose guard fails returns the state as it was: feed, play, the sleep
  toggle and heal when health is at most 0, play when energy is at most 10, heal when
  energy is at most 8. The handlers are total functions here; the early returns of the
  source raise nothing.
\<close>

theorem guarded_actions_noop:
  "(health s \<le> 0 \<longrightarrow> feed s = s \<and> play s = s \<and> toggleSleep s = s \<and> heal s = s) \<and>
   (energy s \<le> 10 \<longrightarrow> play s = s) \<and>
   (energy s \<le> 8 \<longrightarrow> heal s = s)"
  by (simp add: feed_def play_def toggleSleep_def heal_def)

theorem guarded_actions_noop_witness:
  "health (defaultState 0 0\<lparr>health := 0\<rparr>) \<le> 0 \<and>
   feed (defaultState 0 0\<lparr>health := 0\<rparr>) = defaultState 0 0\<lparr>health := 0\<rparr> \<and>
   toggleSleep (defaultState 0 0\<lparr>health := 0\<rparr>) = defaultState 0 0\<lparr>health := 0\<rparr> \<and>
   energy (defaultState 0 0\<lparr>energy := 9\<rparr>) \<le> 10 \<and>
   play (defaultState 0 0\<lparr>energy := 9\<rparr>) = defaultState 0 0\<lparr>energy := 9\<rparr> \<and>
   energy (defaultState 0 0\<lparr>energy := 8\<rparr>) \<le> 8 \<and>
   heal (defaultState 0 0\<lparr>energy := 8\<rparr>) = defaultState 0 0\<lparr>energy := 8\<rparr>"
  using guarded_actions_noop [of "defaultState 0 0\<lparr>health := 0\<rparr>"]
    guarded_actions_noop [of "defaultState 0 0\<lparr>energy := 9\<rparr>"]
    guarded_actions_noop [of "defaultState 0 0\<lparr>energy := 8\<rparr>"]
  by (simp add: defaultState_def)

text \<open>
  C4. When a tick that runs (the pet is not paused) leaves health at most 0, the state
  it leaves has health 0, is paused and is awake; and after any sequence of further
  ticks, feeds, plays, sleep toggles, heals and pause toggles the health is still 0.
\<close>

theorem terminal_latch:
  assumes "\<not> paused s" and "health (tick now s) \<le> 0"
  shows "health (tick now s) = 0 \<and> paused (tick now s) \<and> \<not> isSleeping (tick now s) \<and>
         health (run es (tick now s)) = 0"
proof -
  have t: "health (tick now s) = 0 \<and> paused (tick now s) \<and> \<not> isSleeping (tick now s)"
    using assms by (rule tick_terminal)
  then have "health (run es (tick now s)) = 0"
    using run_dead [of "tick now s" es] by simp
  with t show ?thesis by simp
qed

text \<open>
  A hungry pet with health 1 dies in the tick; unpausing it, ticking and pressing every
  button leaves the health at 0.
\<close>

theorem terminal_latch_witness:
  "\<not> paused \<lparr>health = 1, hunger = 90, energy = 50, clean = 50, mood = ''Hungry'', createdAt = 0,
      lastTickAt = 0, isSleeping = False, paused = False\<rparr> \<and>
   tick 5000 \<lparr>health = 1, hunger = 90, energy = 50, clean = 50, mood = ''Hungry'', createdAt = 0,
      lastTickAt = 0, isSleeping = False, paused = False\<rparr> =
     \<lparr>health = 0, hunger = 93, energy = 48, clean = 49, mood = ''Sick'', createdAt = 0,
      lastTickAt = 5000, isSleeping = False, paused = True\<rparr> \<and>
   health (run [TogglePause, Tick 10000, Heal, Feed, Play, ToggleSleep, TogglePause, Tick 15000]
     (tick 5000 \<lparr>health = 1, hunger = 90, energy = 50, clean = 50, mood = ''Hungry'', createdAt = 0,
      lastTickAt = 0, isSleeping = False, paused = False\<rparr>)) = 0"
proof -
  let ?s = "\<lparr>health = 1, hunger = 90, energy = 50, clean = 50, mood = ''Hungry'', createdAt = 0,
      lastTickAt = 0, isSleeping = False, paused = False\<rparr>"
  have v: "tick 5000 ?s =
     \<lparr>health = 0, hunger = 93, energy = 48, clean = 49, mood = ''Sick'', createdAt = 0,
      lastTickAt = 5000, isSleeping = False, paused = True\<rparr>"
    by (simp add: tick_def applyNaturalDecay_def Let_def clamp_def render_def
        computeMoodAndCondition_def)
  have p: "\<not> paused ?s" by simp
  have h: "health (tick 5000 ?s) \<le> 0" by (simp add: v)
  from terminal_latch [OF p h,
      of "[TogglePause, Tick 10000, Heal, Feed, Play, ToggleSleep, TogglePause, Tick 15000]"]
  show ?thesis using v by simp
qed

subsection \<open>Loading and replay\<close>

text \<open>
  C5, as amended. Once 60 minutes or more have passed since the snapshot's
  \<open>lastTickAt\<close>, the replay applies the decay step exactly 60 times to the snapshot laid
  over the defaults, as the replay at exactly 60 minutes does, and the two results
  are the same except for \<open>lastTickAt\<close>, which each sets to its own \<open>now\<close>, and for a
  \<open>createdAt\<close> that the snapshot lacks, which each fills from its own clock.
\<close>

theorem replay_cap:
  assumes "snap_lastTickAt p = Some l" and "now - l \<ge> 3600000"
  shows "replay p now tCreated tTick =
           ((applyNaturalDecay ^^ 60) (spread (defaultState tCreated tTick) p))
             \<lparr>lastTickAt := now\<rparr> \<and>
         replay p (l + 3600000) tCreated' tTick' =
           ((applyNaturalDecay ^^ 60) (spread (defaultState tCreated' tTick') p))
             \<lparr>lastTickAt := l + 3600000\<rparr> \<and>
         replay p now tCreated tTick =
           (replay p (l + 3600000) tCreated' tTick')
             \<lparr>lastTickAt := now,
              createdAt := (case snap_createdAt p of None \<Rightarrow> tCreated | Some v \<Rightarrow> v)\<rparr>"
proof -
  have at60: "replay p (l + 3600000) tCreated' tTick' =
          ((applyNaturalDecay ^^ 60) (spread (defaultState tCreated' tTick') p))
            \<lparr>lastTickAt := l + 3600000\<rparr>"
    using assms(1) by (rule replay_capped) simp
  have later: "replay p now tCreated tTick =
          ((applyNaturalDecay ^^ 60) (spread (defaultState tCreated tTick) p))\<lparr>lastTickAt := now\<rparr>"
    using assms by (rule replay_capped)
  note defaults = spread_defaults_createdAt [OF assms(1), of tCreated tTick tCreated' tTick']
  have "replay p now tCreated tTick =
           (replay p (l + 3600000) tCreated' tTick')
             \<lparr>lastTickAt := now,
              createdAt := (case snap_createdAt p of None \<Rightarrow> tCreated | Some v \<Rightarrow> v)\<rparr>"
    using at60 later defaults by (simp only: funpow_createdAt_update) simp
  with at60 later show ?thesis by simp
qed

text \<open>
  The snapshot of a fresh pet, loaded two hours after its last tick: sixty steps awake
  leave hunger at 100, energy and health at 0 and clean at 80 - 60 = 20.
\<close>

theorem replay_cap_witness:
  "snap_lastTickAt (snapshotOf (defaultState 0 0)) = Some 0 \<and> (7200000::int) - 0 \<ge> 3600000 \<and>
   replay (snapshotOf (defaultState 0 0)) 7200000 7200000 7200000 =
     \<lparr>health = 0, hunger = 100, energy = 0, clean = 20, mood = ''Happy'', createdAt = 0,
      lastTickAt = 7200000, isSleeping = False, paused = False\<rparr> \<and>
   replay (snapshotOf (defaultState 0 0)) 3600000 3600000 3600000 =
     \<lparr>health = 0, hunger = 100, energy = 0, clean = 20, mood = ''Happy'', createdAt = 0,
      lastTickAt = 3600000, isSleeping = False, paused = False\<rparr>"
proof -
  have a: "snap_lastTickAt (snapshotOf (defaultState 0 0)) = Some 0"
    by (simp add: snapshotOf_def defaultState_def)
  have b: "(7200000::int) - 0 \<ge> 3600000" by simp
  have s: "spread (defaultState tCreated tTick) (snapshotOf (defaultState 0 0)) = defaultState 0 0" for tCreated tTick
    by (simp add: spread_def snapshotOf_def defaultState_def)
  have sixty: "(applyNaturalDecay ^^ 60) (defaultState 0 0) =
     \<lparr>health = 0, hunger = 100, energy = 0, clean = 20, mood = ''Happy'', createdAt = 0,
      lastTickAt = 0, isSleeping = False, paused = False\<rparr>"
    by (simp add: eval_nat_numeral funpow_simps_right(2) applyNaturalDecay_def clamp_def
        defaultState_def Let_def del: funpow.simps)
  from replay_cap [OF a b, of 7200000 7200000 3600000 3600000] a b show ?thesis
    by (simp only: s sixty) simp
qed

text \<open>
  C5 as it is written fails. A snapshot last ticked at time 0 that carries no
  \<open>createdAt\<close>, loaded two hours later and loaded one hour later, gives two states that
  differ: each carries its own \<open>now\<close> in \<open>lastTickAt\<close>, and its own clock reading in
  the \<open>createdAt\<close> that the defaults supply.
\<close>

theorem replay_cap_counterexample:
  "replay
     \<lparr>snap_health = Some 100, snap_hunger = Some 0, snap_energy = Some 80,
      snap_clean = Some 80, snap_mood = Some ''Happy'', snap_createdAt = None,
      snap_lastTickAt = Some 0, snap_isSleeping = Some False, snap_paused = Some False\<rparr> 7200000 7200000 7200000 \<noteq>
   replay
     \<lparr>snap_health = Some 100, snap_hunger = Some 0, snap_energy = Some 80,
      snap_clean = Some 80, snap_mood = Some ''Happy'', snap_createdAt = None,
      snap_lastTickAt = Some 0, snap_isSleeping = Some False, snap_paused = Some False\<rparr> 3600000 3600000 3600000 \<and>
   lastTickAt (replay
     \<lparr>snap_health = Some 100, snap_hunger = Some 0, snap_energy = Some 80,
      snap_clean = Some 80, snap_mood = Some ''Happy'', snap_createdAt = None,
      snap_lastTickAt = Some 0, snap_isSleeping = Some False, snap_paused = Some False\<rparr> 7200000 7200000 7200000) = 7200000 \<and>
   lastTickAt (replay
     \<lparr>snap_health = Some 100, snap_hunger = Some 0, snap_energy = Some 80,
      snap_clean = Some 80, snap_mood = Some ''Happy'', snap_createdAt = None,
      snap_lastTickAt = Some 0, snap_isSleeping = Some False, snap_paused = Some False\<rparr> 3600000 3600000 3600000) = 3600000 \<and>
   createdAt (replay
     \<lparr>snap_health = Some 100, snap_hunger = Some 0, snap_energy = Some 80,
      snap_clean = Some 80, snap_mood = Some ''Happy'', snap_createdAt = None,
      snap_lastTickAt = Some 0, snap_isSleeping = Some False, snap_paused = Some False\<rparr> 7200000 7200000 7200000) = 7200000 \<and>
   createdAt (replay
     \<lparr>snap_health = Some 100, snap_hunger = Some 0, snap_energy = Some 80,
      snap_clean = Some 80, snap_mood = Some ''Happy'', snap_createdAt = None,
      snap_lastTickAt = Some 0, snap_isSleeping = Some False, snap_paused = Some False\<rparr> 3600000 3600000 3600000) = 3600000"
proof -
  let ?p = "\<lparr>snap_health = Some 100, snap_hunger = Some 0, snap_energy = Some 80,
      snap_clean = Some 80, snap_mood = Some ''Happy'', snap_createdAt = None,
      snap_lastTickAt = Some 0, snap_isSleeping = Some False, snap_paused = Some False\<rparr>"
  have l: "lastTickAt (replay ?p now tCreated tTick) = now" for now tCreated tTick
    by (simp add: replay_def Let_def)
  have c: "createdAt (replay ?p now tCreated tTick) = tCreated" for now tCreated tTick
    by (simp add: replay_def Let_def decayLoop_funpow funpow_createdAt spread_def
        defaultState_def)
  have "replay ?p 7200000 7200000 7200000 \<noteq> replay ?p 3600000 3600000 3600000"
  proof
    assume "replay ?p 7200000 7200000 7200000 = replay ?p 3600000 3600000 3600000"
    then have "lastTickAt (replay ?p 7200000 7200000 7200000) =
               lastTickAt (replay ?p 3600000 3600000 3600000)"
      by simp
    then show False by (simp add: l)
  qed
  then show ?thesis by (simp add: l c)
qed

text \<open>
  With one \<open>now\<close> and two snapshots that differ only in a \<open>lastTickAt\<close> 60 minutes or
  more in the past, the two replays are equal in every field.
\<close>

lemma replay_cap_same_now:
  assumes "snap_lastTickAt p = Some l" and "now - l \<ge> 3600000" and "now - l' \<ge> 3600000"
  shows "replay (p\<lparr>snap_lastTickAt := Some l'\<rparr>) now tCreated tTick = replay p now tCreated tTick"
proof -
  have "replay (p\<lparr>snap_lastTickAt := Some l'\<rparr>) now tCreated tTick =
          ((applyNaturalDecay ^^ 60) (spread (defaultState tCreated tTick) (p\<lparr>snap_lastTickAt := Some l'\<rparr>)))
            \<lparr>lastTickAt := now\<rparr>"
    using assms(3) by (intro replay_capped) simp_all
  moreover have "replay p now tCreated tTick =
          ((applyNaturalDecay ^^ 60) (spread (defaultState tCreated tTick) p))\<lparr>lastTickAt := now\<rparr>"
    using assms(1,2) by (rule replay_capped)
  moreover have "spread (defaultState tCreated tTick) (p\<lparr>snap_lastTickAt := Some l'\<rparr>) =
          (spread (defaultState tCreated tTick) p)\<lparr>lastTickAt := l'\<rparr>"
    by (simp add: spread_def)
  ultimately show ?thesis
    by (simp only: funpow_lastTickAt_update) simp
qed

text \<open>
  C6. When less than one whole minute has passed since the snapshot's \<open>lastTickAt\<close>
  (or the snapshot has none), the replay applies no decay step: it gives the snapshot's
  fields over the defaults, with \<open>lastTickAt\<close> set to \<open>now\<close>. For the snapshot of a
  state that is the state itself with \<open>lastTickAt\<close> set to \<open>now\<close>.
\<close>

theorem replay_under_a_minute:
  assumes "now - (case snap_lastTickAt p of None \<Rightarrow> now | Some l \<Rightarrow> l) < 60000"
  shows "replay p now tCreated tTick = (spread (defaultState tCreated tTick) p)\<lparr>lastTickAt := now\<rparr> \<and>
         (p = snapshotOf s \<longrightarrow> replay p now tCreated tTick = s\<lparr>lastTickAt := now\<rparr>)"
proof -
  let ?last = "case snap_lastTickAt p of None \<Rightarrow> now | Some l \<Rightarrow> l"
  have "(now - ?last) div 60000 \<le> 0" using assms by simp
  then have "nat (min 60 ((now - ?last) div 60000)) = 0" by simp
  then have r: "replay p now tCreated tTick =
      (spread (defaultState tCreated tTick) p)\<lparr>lastTickAt := now\<rparr>"
    by (simp add: replay_def Let_def decayLoop_funpow)
  have "spread d (snapshotOf s) = s" for d
    by (simp add: spread_def snapshotOf_def)
  with r show ?thesis by auto
qed

theorem replay_under_a_minute_witness:
  "(30000::int) - 0 < 60000 \<and>
   replay (snapshotOf \<lparr>health = 50, hunger = 70, energy = 5, clean = 5, mood = ''Sleepy'',
       createdAt = -5, lastTickAt = 0, isSleeping = False, paused = True\<rparr>) 30000 30000 30000 =
     \<lparr>health = 50, hunger = 70, energy = 5, clean = 5, mood = ''Sleepy'',
       createdAt = -5, lastTickAt = 30000, isSleeping = False, paused = True\<rparr>"
  using replay_under_a_minute
    [of 30000 "snapshotOf \<lparr>health = 50, hunger = 70, energy = 5, clean = 5, mood = ''Sleepy'',
       createdAt = -5, lastTickAt = 0, isSleeping = False, paused = True\<rparr>" 30000 30000
       "\<lparr>health = 50, hunger = 70, energy = 5, clean = 5, mood = ''Sleepy'',
       createdAt = -5, lastTickAt = 0, isSleeping = False, paused = True\<rparr>"]
  by (simp add: snapshotOf_def spread_def)

text \<open>
  C7. When nothing is stored, or the stored text does not decode, or it decodes to
  something that is not a non-null object, \<^verbatim>\<open>loadState\<close> returns \<^verbatim>\<open>null\<close> and the
  initial state is the fresh default state, whole: nothing of the stored value is in it.
\<close>

theorem no_usable_snapshot_falls_back:
  assumes "noUsableSnapshot jsonParse item"
  shows "loadState jsonParse item now tCreated tTick = None \<and>
         initialState jsonParse item now tCreated tTick tCreated' tTick' =
           defaultState tCreated' tTick'"
proof -
  have "loadState jsonParse item now tCreated tTick = None"
    using assms
    by (cases item)
      (auto simp: noUsableSnapshot_def loadState_def split: option.splits jsonValue.splits)
  then show ?thesis by (simp add: initialState_def)
qed

theorem no_usable_snapshot_falls_back_witness:
  "noUsableSnapshot (\<lambda>raw. None) None \<and>
   noUsableSnapshot (\<lambda>raw. None) (Some ''{oops'') \<and>
   noUsableSnapshot (\<lambda>raw. Some JNull) (Some ''null'') \<and>
   noUsableSnapshot (\<lambda>raw. Some (JNumber 42)) (Some ''42'') \<and>
   initialState (\<lambda>raw. None) None 7 8 9 10 11 = defaultState 10 11 \<and>
   initialState (\<lambda>raw. None) (Some ''{oops'') 7 8 9 10 11 = defaultState 10 11 \<and>
   initialState (\<lambda>raw. Some JNull) (Some ''null'') 7 8 9 10 11 = defaultState 10 11 \<and>
   initialState (\<lambda>raw. Some (JNumber 42)) (Some ''42'') 7 8 9 10 11 = defaultState 10 11"
proof -
  have a: "noUsableSnapshot (\<lambda>raw. None) None" "noUsableSnapshot (\<lambda>raw. None) (Some ''{oops'')"
    "noUsableSnapshot (\<lambda>raw. Some JNull) (Some ''null'')"
    "noUsableSnapshot (\<lambda>raw. Some (JNumber 42)) (Some ''42'')"
    by (simp_all add: noUsableSnapshot_def)
  from no_usable_snapshot_falls_back [OF a(1), of 7 8 9 10 11]
    no_usable_snapshot_falls_back [OF a(2), of 7 8 9 10 11]
    no_usable_snapshot_falls_back [OF a(3), of 7 8 9 10 11]
    no_usable_snapshot_falls_back [OF a(4), of 7 8 9 10 11] a
  show ?thesis by simp
qed

end
